theory Spec2Isabelle
  imports Main "HOL-Library.Multiset"
begin

section \<open>The tables\<close>

text \<open>
  The program keeps its state in one SQLite file (schema in
  \<^verbatim>\<open>scripts/migrate_database.py\<close>, the \<^verbatim>\<open>is_primary\<close> column in
  \<^verbatim>\<open>scripts/add_is_primary_column.py\<close>).  A table is the list of its rows in scan
  order; a row is a record of the columns that the modelled functions read or write.
  A nullable column is an \<open>option\<close>, \<open>None\<close> being SQL \<open>NULL\<close> and Python
  \<open>None\<close>.  Timestamps and dates are day numbers.  The JSON text of the
  \<^verbatim>\<open>roles.permissions\<close> column is kept as the dictionary that \<^verbatim>\<open>json.loads\<close>
  yields (\<open>[]\<close> for an empty or invalid text), its values being booleans.
\<close>

type_synonym perms = "(string \<times> bool) list"

record user_row =
  u_user_id :: int
  u_is_active :: "int option"

record department =
  d_id :: int
  d_parent_department_id :: "int option"
  d_is_active :: "int option"

record role_row =
  r_id :: int
  r_name :: string
  r_name_ar :: string
  r_description_json :: perms
  r_level :: int
  r_permissions :: perms

record user_role_row =
  ur_id :: int
  ur_user_id :: int
  ur_role_id :: int
  ur_department_id :: "int option"
  ur_is_active :: "int option"
  ur_assigned_by :: "int option"
  ur_assigned_at :: int
  ur_is_primary :: "int option"

text \<open>
  The Arabic string literals of \<^verbatim>\<open>summarize_text\<close> are named by what they say; in the
  source each of them is an ordinary \<^verbatim>\<open>str\<close>, like the generated text itself.
  \<open>Ar_error e\<close> is the literal \<open>Error_prefix_ar\<close> followed by a newline and \<open>e\<close>.
\<close>

datatype ar_literal =
  No_response_ar | Safety_block_ar | Recitation_ar | Technical_failure_ar | Cannot_extract_ar

datatype py_text = Text string | Ar ar_literal | Ar_error string

record report_row =
  rp_id :: int
  rp_content :: py_text
  rp_report_type :: string
  rp_status :: string
  rp_visibility :: "string option"
  rp_submitted_by :: int
  rp_department_id :: "int option"
  rp_is_cumulative :: "int option"
  rp_source_report_ids :: "int list option"
  rp_submitted_at :: "int option"

record approval_row =
  ap_report_id :: int
  ap_approver_id :: int
  ap_status :: string
  ap_approved_at :: "int option"

record aggregation_row =
  ag_cumulative_report_id :: int
  ag_source_report_id :: int
  ag_department_id :: "int option"

record database =
  users :: "user_row list"
  departments :: "department list"
  roles :: "role_row list"
  user_roles :: "user_role_row list"
  reports :: "report_row list"
  report_approvals :: "approval_row list"
  report_aggregations :: "aggregation_row list"

text \<open>Python truthiness of an integer or \<open>None\<close>: \<open>None\<close> and \<open>0\<close> are false.\<close>

definition truthy :: "int option \<Rightarrow> bool" where
  "truthy v = (case v of None \<Rightarrow> False | Some n \<Rightarrow> n \<noteq> 0)"

text \<open>\<^verbatim>\<open>perms.get(permission, False)\<close> read as a condition.\<close>

definition perm_get :: "perms \<Rightarrow> string \<Rightarrow> bool" where
  "perm_get ps p = (case map_of ps p of None \<Rightarrow> False | Some b \<Rightarrow> b)"

text \<open>The id an \<^verbatim>\<open>AUTOINCREMENT\<close> key gives to the next inserted row.\<close>

definition next_id :: "int list \<Rightarrow> int" where
  "next_id ids = foldr max ids 0 + 1"

section \<open>\<^verbatim>\<open>bot/database_enhanced.py\<close>: users, departments, roles\<close>

definition get_user :: "database \<Rightarrow> int \<Rightarrow> user_row option" where
  "get_user db uid = find (\<lambda>u. u_user_id u = uid) (users db)"

text \<open>
  \<^verbatim>\<open>get_all_departments(active_only=True)\<close>.  The query's \<^verbatim>\<open>ORDER BY level, name\<close>
  permutes the rows and is left out: the result is used for the ids it contains.
\<close>

definition get_all_departments :: "database \<Rightarrow> department list" where
  "get_all_departments db = filter (\<lambda>d. d_is_active d = Some 1) (departments db)"

text \<open>
  \<^verbatim>\<open>get_department_hierarchy\<close> runs the recursive common table expression
  \<^verbatim>\<open>
  WITH RECURSIVE dept_tree AS (
      SELECT id FROM departments WHERE id = ?
      UNION ALL
      SELECT d.id FROM departments d JOIN dept_tree dt ON d.parent_department_id = dt.id)
  SELECT id FROM dept_tree
  \<close>
  SQLite evaluates it with a queue: the rows of the initial select are put in the queue;
  while the queue is not empty, one row is taken from it, added to the result, and the
  recursive select is run with that row as the only row of \<^verbatim>\<open>dept_tree\<close>, its rows
  going to the back of the queue.  \<^verbatim>\<open>UNION ALL\<close> keeps duplicates, and nothing bounds
  the loop, so the function is partial: \<open>None\<close> is a query that never finishes.
\<close>

definition children :: "department list \<Rightarrow> int \<Rightarrow> int list" where
  "children ds p = map d_id (filter (\<lambda>d. d_parent_department_id d = Some p) ds)"

partial_function (option) dept_tree ::
  "department list \<Rightarrow> int list \<Rightarrow> int list \<Rightarrow> int list option" where
  "dept_tree ds queue acc =
     (case queue of
        [] \<Rightarrow> Some acc
      | x # rest \<Rightarrow> dept_tree ds (rest @ children ds x) (acc @ [x]))"

definition get_department_hierarchy :: "database \<Rightarrow> int option \<Rightarrow> int list option" where
  "get_department_hierarchy db dept_id =
     dept_tree (departments db)
       (map d_id (filter (\<lambda>d. Some (d_id d) = dept_id) (departments db))) []"

text \<open>
  The dictionaries of \<^verbatim>\<open>get_user_roles\<close>: one for each active assignment of the user,
  joined with its role.  The \<^verbatim>\<open>LEFT JOIN\<close> with \<^verbatim>\<open>departments\<close> only adds the
  department's name (\<^verbatim>\<open>departments.id\<close> is the primary key, so it adds no row) and is
  left out with that field.
\<close>

record user_role =
  role_id :: int
  role_name :: string
  level :: int
  permissions :: perms
  department_id :: "int option"

definition get_user_roles :: "database \<Rightarrow> int \<Rightarrow> user_role list" where
  "get_user_roles db uid =
     concat (map
       (\<lambda>ur. map
          (\<lambda>r. \<lparr>role_id = r_id r, role_name = r_name r, level = r_level r,
                permissions = r_permissions r, department_id = ur_department_id ur\<rparr>)
          (filter (\<lambda>r. r_id r = ur_role_id ur) (roles db)))
       (filter (\<lambda>ur. ur_user_id ur = uid \<and> ur_is_active ur = Some 1) (user_roles db)))"

text \<open>Python's \<^verbatim>\<open>max(roles, key=lambda x: x['level'])\<close>: the first role of greatest level.\<close>

fun max_level :: "user_role list \<Rightarrow> user_role option" where
  "max_level [] = None"
| "max_level (x # xs) = Some (foldl (\<lambda>best y. if level best < level y then y else best) x xs)"

definition get_user_primary_role :: "database \<Rightarrow> int \<Rightarrow> user_role option" where
  "get_user_primary_role db uid = max_level (get_user_roles db uid)"

definition get_user_department :: "database \<Rightarrow> int \<Rightarrow> int option" where
  "get_user_department db uid =
     (case max_level (get_user_roles db uid) of
        None \<Rightarrow> None
      | Some primary_role \<Rightarrow> department_id primary_role)"

definition has_permission :: "database \<Rightarrow> int \<Rightarrow> string \<Rightarrow> bool" where
  "has_permission db uid permission =
     list_ex (\<lambda>role. perm_get (permissions role) permission) (get_user_roles db uid)"

definition can_access_department :: "database \<Rightarrow> int \<Rightarrow> int option \<Rightarrow> bool option" where
  "can_access_department db uid dept_id =
     (case get_user_primary_role db uid of
        None \<Rightarrow> Some False
      | Some user_role \<Rightarrow>
          if role_name user_role = ''admin'' then Some True
          else if \<not> truthy (department_id user_role) then Some False
          else if department_id user_role = dept_id then Some True
          else if perm_get (permissions user_role) ''can_view_subdepartments'' then
            (case get_department_hierarchy db (department_id user_role) of
               None \<Rightarrow> None
             | Some dept_hierarchy \<Rightarrow> Some (dept_id \<in> set (map Some dept_hierarchy)))
          else Some False)"

text \<open>
  \<^verbatim>\<open>get_report\<close> joins the report with its submitter and its department (inner joins),
  so a report whose submitter or department has no row is not found.
\<close>

definition get_report :: "database \<Rightarrow> int \<Rightarrow> report_row option" where
  "get_report db report_id =
     find (\<lambda>r. rp_id r = report_id
              \<and> list_ex (\<lambda>u. u_user_id u = rp_submitted_by r) (users db)
              \<and> list_ex (\<lambda>d. Some (d_id d) = rp_department_id r) (departments db))
          (reports db)"

definition deactivate_user :: "database \<Rightarrow> int \<Rightarrow> database \<times> bool" where
  "deactivate_user db uid =
     (db\<lparr>users := map (\<lambda>u. if u_user_id u = uid then u\<lparr>u_is_active := Some 0\<rparr> else u) (users db)\<rparr>,
      list_ex (\<lambda>u. u_user_id u = uid) (users db))"

section \<open>\<^verbatim>\<open>bot/permissions.py\<close>: class AccessControl\<close>

text \<open>
  Every checker starts with
  \<^verbatim>\<open>if not user or not user.get('is_active', 1): return False\<close>; the key
  \<^verbatim>\<open>is_active\<close> is always in the dictionary of \<^verbatim>\<open>get_user\<close>.
\<close>

definition not_active :: "database \<Rightarrow> int \<Rightarrow> bool" where
  "not_active db uid =
     (case get_user db uid of None \<Rightarrow> True | Some user \<Rightarrow> \<not> truthy (u_is_active user))"

definition can_create_report :: "database \<Rightarrow> int \<Rightarrow> bool" where
  "can_create_report db uid =
     (if not_active db uid then False else has_permission db uid ''can_create_report'')"

definition can_view_report :: "database \<Rightarrow> int \<Rightarrow> int \<Rightarrow> bool option" where
  "can_view_report db uid report_id =
     (if not_active db uid then Some False
      else (case get_report db report_id of
        None \<Rightarrow> Some False
      | Some report \<Rightarrow>
          if rp_submitted_by report = uid then Some True
          else if rp_visibility report = Some ''public'' then Some True
          else can_access_department db uid (rp_department_id report)))"

definition can_approve_report :: "database \<Rightarrow> int \<Rightarrow> int \<Rightarrow> bool option" where
  "can_approve_report db uid report_id =
     (if not_active db uid then Some False
      else if \<not> has_permission db uid ''can_approve'' then Some False
      else (case get_report db report_id of
        None \<Rightarrow> Some False
      | Some report \<Rightarrow>
          if rp_submitted_by report = uid then Some False
          else can_access_department db uid (rp_department_id report)))"

definition can_create_cumulative_report :: "database \<Rightarrow> int \<Rightarrow> bool" where
  "can_create_cumulative_report db uid =
     (if not_active db uid then False else has_permission db uid ''can_create_cumulative'')"

definition can_manage_users :: "database \<Rightarrow> int \<Rightarrow> bool" where
  "can_manage_users db uid =
     (if not_active db uid then False else has_permission db uid ''can_manage_users'')"

definition can_manage_departments :: "database \<Rightarrow> int \<Rightarrow> bool" where
  "can_manage_departments db uid =
     (if not_active db uid then False else has_permission db uid ''can_manage_departments'')"

text \<open>The role checks return \<^verbatim>\<open>role and ...\<close>; the model gives its truth value.\<close>

definition is_admin :: "database \<Rightarrow> int \<Rightarrow> bool" where
  "is_admin db uid =
     (if not_active db uid then False
      else (case get_user_primary_role db uid of
        None \<Rightarrow> False
      | Some role \<Rightarrow> role_name role = ''admin''))"

definition is_manager :: "database \<Rightarrow> int \<Rightarrow> bool" where
  "is_manager db uid =
     (if not_active db uid then False
      else (case get_user_primary_role db uid of
        None \<Rightarrow> False
      | Some role \<Rightarrow> role_name role \<in> set [''manager'', ''upper_manager'', ''admin'']))"

definition get_accessible_departments :: "database \<Rightarrow> int \<Rightarrow> int list option" where
  "get_accessible_departments db uid =
     (if not_active db uid then Some []
      else (case get_user_primary_role db uid of
        None \<Rightarrow> Some []
      | Some user_role \<Rightarrow>
          if role_name user_role = ''admin'' then Some (map d_id (get_all_departments db))
          else (case department_id user_role of
            None \<Rightarrow> Some []
          | Some user_dept \<Rightarrow>
              if user_dept = 0 then Some []
              else if perm_get (permissions user_role) ''can_view_subdepartments'' then
                get_department_hierarchy db (Some user_dept)
              else if perm_get (permissions user_role) ''can_view_department'' then
                Some [user_dept]
              else Some [])))"

text \<open>
  \<^verbatim>\<open>get_role_by_name\<close> is defined twice in class DatabaseEnhanced; the second
  definition (the last in the class body) is the one bound to the name.  It reads the
  row's columns 0 to 3 (\<^verbatim>\<open>id, name, name_ar, description\<close>), parses column 3 as the
  permissions, and returns a dictionary with the four keys below.
\<close>

datatype py_value = Py_int int | Py_str string | Py_dict perms

datatype py_error = KeyError string | TypeError

definition get_role_by_name :: "database \<Rightarrow> string \<Rightarrow> (string \<times> py_value) list option" where
  "get_role_by_name db rname =
     (case find (\<lambda>r. r_name r = rname) (roles db) of
        None \<Rightarrow> None
      | Some row \<Rightarrow>
          Some [(''id'', Py_int (r_id row)), (''name'', Py_str (r_name row)),
                (''display_name'', Py_str (r_name_ar row)),
                (''permissions'', Py_dict (r_description_json row))])"

text \<open>\<^verbatim>\<open>d[key]\<close> for an integer entry of a dictionary.\<close>

definition dict_int :: "(string \<times> py_value) list \<Rightarrow> string \<Rightarrow> py_error + int" where
  "dict_int d key =
     (case map_of d key of
        None \<Rightarrow> Inl (KeyError key)
      | Some (Py_int n) \<Rightarrow> Inr n
      | Some _ \<Rightarrow> Inl TypeError)"

text \<open>The messages of \<^verbatim>\<open>can_assign_role\<close> (Arabic in the source), by what they say.\<close>

datatype assign_message =
  Account_inactive | No_manage_users_permission | Role_not_found string
  | Role_above_own | Other_department | Empty_message

definition can_assign_role ::
  "database \<Rightarrow> int \<Rightarrow> int \<Rightarrow> string \<Rightarrow> int option \<Rightarrow> py_error + bool \<times> assign_message" where
  "can_assign_role db assigner_id target_user_id rname dept_id =
     (if not_active db assigner_id then Inr (False, Account_inactive)
      else if \<not> can_manage_users db assigner_id then Inr (False, No_manage_users_permission)
      else (case get_role_by_name db rname of
        None \<Rightarrow> Inr (False, Role_not_found rname)
      | Some target_role \<Rightarrow>
          (case dict_int target_role ''level'' of
             Inl e \<Rightarrow> Inl e
           | Inr target_level \<Rightarrow>
               (case get_user_primary_role db assigner_id of
                  None \<Rightarrow> Inl TypeError
                | Some assigner_role \<Rightarrow>
                    if level assigner_role \<le> target_level then Inr (False, Role_above_own)
                    else if role_name assigner_role = ''admin'' then Inr (True, Empty_message)
                    else if dept_id \<noteq> department_id assigner_role
                      then Inr (False, Other_department)
                    else Inr (True, Empty_message)))))"

section \<open>\<^verbatim>\<open>assign_role\<close>\<close>

text \<open>
  \<^verbatim>\<open>user_roles\<close> has \<^verbatim>\<open>UNIQUE(user_id, role_id, department_id)\<close>.  An insert raises
  \<^verbatim>\<open>sqlite3.IntegrityError\<close> when a row with the same three values exists; SQLite
  takes \<open>NULL\<close>s as different from each other, so a row with no department never
  conflicts.
\<close>

definition insert_conflicts :: "user_role_row list \<Rightarrow> int \<Rightarrow> int \<Rightarrow> int option \<Rightarrow> bool" where
  "insert_conflicts rows uid rid dept_id =
     (case dept_id of
        None \<Rightarrow> False
      | Some d \<Rightarrow>
          list_ex (\<lambda>ur. ur_user_id ur = uid \<and> ur_role_id ur = rid \<and> ur_department_id ur = Some d)
            rows)"

definition new_assignment ::
  "user_role_row list \<Rightarrow> int \<Rightarrow> int \<Rightarrow> int option \<Rightarrow> int option \<Rightarrow> bool \<Rightarrow> int \<Rightarrow> user_role_row" where
  "new_assignment rows uid rid dept_id assigned_by is_primary now =
     \<lparr>ur_id = next_id (map ur_id rows), ur_user_id = uid, ur_role_id = rid,
      ur_department_id = dept_id, ur_is_active = Some 1, ur_assigned_by = assigned_by,
      ur_assigned_at = now, ur_is_primary = Some (if is_primary then 1 else 0)\<rparr>"

text \<open>
  The statements of \<^verbatim>\<open>assign_role\<close> run in one transaction: a failed insert undoes
  itself only, so the first \<^verbatim>\<open>UPDATE\<close> stays in effect when the handler of
  \<^verbatim>\<open>IntegrityError\<close> commits; \<^verbatim>\<open>rollback\<close> restores the table.  \<open>now\<close> is
  \<^verbatim>\<open>CURRENT_TIMESTAMP\<close>.
\<close>

definition assign_role ::
  "database \<Rightarrow> int \<Rightarrow> string \<Rightarrow> int option \<Rightarrow> int option \<Rightarrow> bool \<Rightarrow> int
   \<Rightarrow> py_error + database \<times> bool" where
  "assign_role db uid rname dept_id assigned_by is_primary now =
     (case get_role_by_name db rname of
        None \<Rightarrow> Inr (db, False)
      | Some role \<Rightarrow>
          (case dict_int role ''id'' of
             Inl e \<Rightarrow> Inl e
           | Inr rid \<Rightarrow>
               (let unset = (if is_primary
                      then map (\<lambda>ur. if ur_user_id ur = uid then ur\<lparr>ur_is_primary := Some 0\<rparr> else ur)
                             (user_roles db)
                      else user_roles db)
                in if \<not> insert_conflicts unset uid rid dept_id then
                     Inr (db\<lparr>user_roles :=
                            unset @ [new_assignment unset uid rid dept_id assigned_by is_primary now]\<rparr>,
                          True)
                   else
                     (let same = (\<lambda>ur. ur_user_id ur = uid \<and> ur_role_id ur = rid
                                         \<and> ur_department_id ur = dept_id);
                          updated = map (\<lambda>ur. if same ur
                                           then ur\<lparr>ur_is_active := Some 1,
                                                  ur_is_primary := Some (if is_primary then 1 else 0),
                                                  ur_assigned_by := assigned_by,
                                                  ur_assigned_at := now\<rparr>
                                           else ur) unset
                      in if list_ex same unset then Inr (db\<lparr>user_roles := updated\<rparr>, True)
                         else
                           (let deleted = filter (\<lambda>ur. \<not> (ur_user_id ur = uid
                                                        \<and> ur_is_primary ur = Some 1)) updated
                            in if insert_conflicts deleted uid rid dept_id then Inr (db, False)
                               else Inr (db\<lparr>user_roles :=
                                     deleted @ [new_assignment deleted uid rid dept_id
                                                  assigned_by is_primary now]\<rparr>, True))))))"

section \<open>Reports\<close>

text \<open>
  The inserts and updates of the reports.  Title, priority, metadata, tags and the
  aggregation type, period and dates are stored and never read by the functions below;
  they are left out of the rows and of the parameters.
  \<open>now\<close> is \<^verbatim>\<open>datetime.now()\<close>.
\<close>

definition create_report ::
  "database \<Rightarrow> py_text \<Rightarrow> string \<Rightarrow> int \<Rightarrow> int option \<Rightarrow> string \<Rightarrow> int \<Rightarrow> database \<times> int" where
  "create_report db content report_type uid dept_id status now =
     (let report_id = next_id (map rp_id (reports db))
      in (db\<lparr>reports := reports db @
            [\<lparr>rp_id = report_id, rp_content = content, rp_report_type = report_type,
              rp_status = status, rp_visibility = Some ''department'', rp_submitted_by = uid,
              rp_department_id = dept_id, rp_is_cumulative = Some 0,
              rp_source_report_ids = None,
              rp_submitted_at = (if status \<noteq> ''draft'' then Some now else None)\<rparr>]\<rparr>,
          report_id))"

definition update_report_status :: "database \<Rightarrow> int \<Rightarrow> string \<Rightarrow> int \<Rightarrow> database \<times> bool" where
  "update_report_status db report_id status now =
     (db\<lparr>reports :=
          map (\<lambda>r. if rp_id r = report_id
                   then (if status = ''submitted''
                         then r\<lparr>rp_status := status, rp_submitted_at := Some now\<rparr>
                         else r\<lparr>rp_status := status\<rparr>)
                   else r) (reports db)\<rparr>,
      list_ex (\<lambda>r. rp_id r = report_id) (reports db))"

definition add_approval :: "database \<Rightarrow> int \<Rightarrow> int \<Rightarrow> string \<Rightarrow> int \<Rightarrow> database" where
  "add_approval db report_id approver_id status now =
     db\<lparr>report_approvals := report_approvals db @
          [\<lparr>ap_report_id = report_id, ap_approver_id = approver_id, ap_status = status,
            ap_approved_at = (if status = ''approved'' then Some now else None)\<rparr>]\<rparr>"

definition create_cumulative_report ::
  "database \<Rightarrow> int list \<Rightarrow> int \<Rightarrow> int option \<Rightarrow> py_text \<Rightarrow> int \<Rightarrow> database \<times> int" where
  "create_cumulative_report db source_report_ids uid dept_id content now =
     (let cumulative_id = next_id (map rp_id (reports db))
      in (db\<lparr>reports := reports db @
            [\<lparr>rp_id = cumulative_id, rp_content = content, rp_report_type = ''cumulative'',
              rp_status = ''submitted'', rp_visibility = Some ''department'',
              rp_submitted_by = uid, rp_department_id = dept_id, rp_is_cumulative = Some 1,
              rp_source_report_ids = Some source_report_ids, rp_submitted_at = Some now\<rparr>],
            report_aggregations := report_aggregations db @
              map (\<lambda>source_id.
                     \<lparr>ag_cumulative_report_id = cumulative_id, ag_source_report_id = source_id,
                      ag_department_id =
                        (case find (\<lambda>r. rp_id r = source_id) (reports db) of
                           None \<Rightarrow> None
                         | Some source \<Rightarrow> rp_department_id source)\<rparr>)
                  source_report_ids\<rparr>,
          cumulative_id))"

text \<open>
  \<^verbatim>\<open>get_hierarchical_reports\<close> as the cumulative handler calls it, with a status and
  both dates.  \<^verbatim>\<open>ORDER BY r.department_id, r.submitted_at DESC\<close> permutes the rows and
  is left out.
\<close>

definition get_hierarchical_reports ::
  "database \<Rightarrow> int option \<Rightarrow> int \<Rightarrow> int \<Rightarrow> string \<Rightarrow> report_row list option" where
  "get_hierarchical_reports db dept_id start_date end_date status =
     (case get_department_hierarchy db dept_id of
        None \<Rightarrow> None
      | Some dept_ids \<Rightarrow>
          Some (filter
            (\<lambda>r. list_ex (\<lambda>u. u_user_id u = rp_submitted_by r) (users db)
                \<and> list_ex (\<lambda>d. Some (d_id d) = rp_department_id r) (departments db)
                \<and> rp_department_id r \<in> set (map Some dept_ids)
                \<and> rp_status r = status
                \<and> (case rp_submitted_at r of
                      None \<Rightarrow> False
                    | Some day \<Rightarrow> start_date \<le> day \<and> day \<le> end_date))
            (reports db)))"

section \<open>\<^verbatim>\<open>bot/gemini_client.py\<close>: \<^verbatim>\<open>summarize_text\<close>\<close>

text \<open>
  What the call of the text-generation service gives: an exception with its message, or
  a response with its candidates and its \<^verbatim>\<open>text\<close> (\<open>None\<close> when reading it
  raises).  A candidate has its finish reason (2 is SAFETY, 3 RECITATION, 4 OTHER) and
  the text of its first part, when there is one.
\<close>

record candidate =
  finish_reason :: "int option"
  first_part_text :: "string option"

datatype generation = Raises string | Response "candidate list" "string option"

text \<open>\<^verbatim>\<open>summarize_text(text, language='ar')\<close>; its result is a \<^verbatim>\<open>str\<close> in every case.\<close>

definition summarize_text :: "generation \<Rightarrow> py_text" where
  "summarize_text g =
     (case g of
        Raises error_msg \<Rightarrow> Ar_error error_msg
      | Response candidates response_text \<Rightarrow>
          (case candidates of
             [] \<Rightarrow> Ar No_response_ar
           | c # _ \<Rightarrow>
               if finish_reason c = Some 2 then Ar Safety_block_ar
               else if finish_reason c = Some 3 then Ar Recitation_ar
               else if finish_reason c = Some 4 then Ar Technical_failure_ar
               else (case response_text of
                       Some result_text \<Rightarrow> Text result_text
                     | None \<Rightarrow>
                         (case first_part_text c of
                            Some result_text \<Rightarrow> Text result_text
                          | None \<Rightarrow> Ar Cannot_extract_ar))))"

section \<open>\<^verbatim>\<open>bot/report_handlers.py\<close>\<close>

text \<open>
  The handlers, as functions of the database: what they write and which answer they
  send.  A handler whose query does not finish has no result (\<open>None\<close>).
\<close>

datatype reply =
  Department_not_set | Creation_refused | Report_submitted int | Draft_saved int
  | Approval_denied | Approved int | No_approved_reports | Cumulative_created int py_text

definition validate_report_creation :: "database \<Rightarrow> int \<Rightarrow> int option \<Rightarrow> bool" where
  "validate_report_creation db uid dept_id =
     (if not_active db uid then False
      else if \<not> can_create_report db uid then False
      else (case get_user_primary_role db uid of
              None \<Rightarrow> dept_id = get_user_department db uid
            | Some user_role \<Rightarrow>
                if role_name user_role = ''admin'' then True
                else dept_id = get_user_department db uid))"

definition save_report ::
  "database \<Rightarrow> int \<Rightarrow> string \<Rightarrow> py_text \<Rightarrow> string \<Rightarrow> int \<Rightarrow> database \<times> reply" where
  "save_report db uid action content report_type now =
     (let user_dept = get_user_department db uid
      in if \<not> truthy user_dept then (db, Department_not_set)
         else if \<not> validate_report_creation db uid user_dept then (db, Creation_refused)
         else
           (let status = (if action = ''submit_report'' then ''submitted'' else ''draft'');
                created = create_report db content report_type uid user_dept status now
            in (fst created,
                if action = ''submit_report'' then Report_submitted (snd created)
                else Draft_saved (snd created))))"

definition approve_report_command ::
  "database \<Rightarrow> int \<Rightarrow> int \<Rightarrow> int \<Rightarrow> (database \<times> reply) option" where
  "approve_report_command db uid report_id now =
     (case can_approve_report db uid report_id of
        None \<Rightarrow> None
      | Some allowed \<Rightarrow>
          if \<not> allowed then Some (db, Approval_denied)
          else Some (fst (update_report_status
                            (add_approval db report_id uid ''approved'' now)
                            report_id ''approved'' now),
                     Approved report_id))"

definition approve_button_callback ::
  "database \<Rightarrow> int \<Rightarrow> int \<Rightarrow> int \<Rightarrow> (database \<times> reply) option" where
  "approve_button_callback db uid report_id now =
     (case can_approve_report db uid report_id of
        None \<Rightarrow> None
      | Some allowed \<Rightarrow>
          if \<not> allowed then Some (db, Approval_denied)
          else Some (fst (update_report_status
                            (add_approval db report_id uid ''approved'' now)
                            report_id ''approved'' now),
                     Approved report_id))"

text \<open>
  \<^verbatim>\<open>cumulative_period_handler\<close>: \<open>g\<close> is what the service gives for the prompt built
  from the reports.  A user without department has no report to aggregate, so the
  insert always has a department.
\<close>

definition cumulative_period_handler ::
  "database \<Rightarrow> generation \<Rightarrow> int \<Rightarrow> string \<Rightarrow> int \<Rightarrow> (database \<times> reply) option" where
  "cumulative_period_handler db g uid period now =
     (let end_date = now;
          start_date = (if period = ''weekly'' then end_date - 7
                        else if period = ''monthly'' then end_date - 30
                        else if period = ''quarterly'' then end_date - 90
                        else end_date - 7);
          user_dept = get_user_department db uid
      in case get_department_hierarchy db user_dept of
           None \<Rightarrow> None
         | Some accessible_depts \<Rightarrow>
             (case get_hierarchical_reports db user_dept start_date end_date ''approved'' of
                None \<Rightarrow> None
              | Some source_reports \<Rightarrow>
                  if source_reports = [] then Some (db, No_approved_reports)
                  else
                    (let summary = summarize_text g;
                         created = create_cumulative_report db (map rp_id source_reports)
                                     uid user_dept summary now
                     in Some (fst created, Cumulative_created (snd created) summary))))"

text \<open>The report operations a user can trigger, and runs of them.\<close>

datatype operation =
  Save_report int string py_text string int
  | Approve_command int int int
  | Approve_button int int int
  | Cumulative_period generation int string int

fun exec :: "operation \<Rightarrow> database \<Rightarrow> database option" where
  "exec (Save_report uid action content report_type now) db =
     Some (fst (save_report db uid action content report_type now))"
| "exec (Approve_command uid report_id now) db =
     map_option fst (approve_report_command db uid report_id now)"
| "exec (Approve_button uid report_id now) db =
     map_option fst (approve_button_callback db uid report_id now)"
| "exec (Cumulative_period g uid period now) db =
     map_option fst (cumulative_period_handler db g uid period now)"

fun run :: "operation list \<Rightarrow> database \<Rightarrow> database option" where
  "run [] db = Some db"
| "run (op # ops) db = (case exec op db of None \<Rightarrow> None | Some db' \<Rightarrow> run ops db')"

section \<open>Notions of the specification\<close>

text \<open>
  The parent links of a department table, as pairs (parent id, child id); the sub-tree
  of a department: the department, when it has a row, with everything reachable from
  it by the links.
\<close>

definition parent_links :: "department list \<Rightarrow> (int \<times> int) set" where
  "parent_links ds =
     {(p, c). \<exists>d \<in> set ds. d_id d = c \<and> d_parent_department_id d = Some p}"

definition subtree :: "department list \<Rightarrow> int \<Rightarrow> int set" where
  "subtree ds dept = (if dept \<in> d_id ` set ds then (parent_links ds)\<^sup>* `` {dept} else {})"

text \<open>
  A parent-link cycle can be reached from a department: the department has a row, and
  the links lead from it to some department that the links lead back to itself.
\<close>

definition cycle_below :: "department list \<Rightarrow> int \<Rightarrow> bool" where
  "cycle_below ds dept \<longleftrightarrow>
     dept \<in> d_id ` set ds
     \<and> (\<exists>x. (dept, x) \<in> (parent_links ds)\<^sup>* \<and> (x, x) \<in> (parent_links ds)\<^sup>+)"

text \<open>No cumulative report is a draft.\<close>

definition cumulative_not_draft :: "database \<Rightarrow> bool" where
  "cumulative_not_draft db =
     list_all (\<lambda>r. \<not> (truthy (rp_is_cumulative r) \<and> rp_status r = ''draft'')) (reports db)"

section \<open>An organisation\<close>

text \<open>
  The role catalogue that \<^verbatim>\<open>scripts/migrate_database.py\<close> inserts (the descriptions are
  English sentences, no JSON), departments A (1, a root) and B (2, child of A), an
  administrator (user 1), the manager M of B (user 2), the upper manager U of A (user 3)
  and the employee E of B (user 4).
\<close>

definition default_roles :: "role_row list" where
  "default_roles =
     [\<lparr>r_id = 1, r_name = ''employee'',
       r_name_ar = [CHR 0xD9, CHR 0x85, CHR 0xD9, CHR 0x88, CHR 0xD8, CHR 0xB8, CHR 0xD9, CHR 0x81],
       r_description_json = [], r_level = 10,
       r_permissions = [(''can_create_report'', True), (''can_view_own'', True),
         (''can_view_department'', False), (''can_approve'', False),
         (''can_create_cumulative'', False)]\<rparr>,
      \<lparr>r_id = 2, r_name = ''manager'',
       r_name_ar = [CHR 0xD9, CHR 0x85, CHR 0xD8, CHR 0xAF, CHR 0xD9, CHR 0x8A, CHR 0xD8, CHR 0xB1],
       r_description_json = [], r_level = 50,
       r_permissions = [(''can_create_report'', True), (''can_view_own'', True),
         (''can_view_department'', True), (''can_approve'', True),
         (''can_create_cumulative'', False)]\<rparr>,
      \<lparr>r_id = 3, r_name = ''upper_manager'',
       r_name_ar = [CHR 0xD9, CHR 0x85, CHR 0xD8, CHR 0xAF, CHR 0xD9, CHR 0x8A, CHR 0xD8, CHR 0xB1,
         CHR 0x20, CHR 0xD8, CHR 0xA3, CHR 0xD8, CHR 0xB9, CHR 0xD9, CHR 0x84, CHR 0xD9, CHR 0x89],
       r_description_json = [], r_level = 70,
       r_permissions = [(''can_create_report'', True), (''can_view_own'', True),
         (''can_view_department'', True), (''can_view_subdepartments'', True),
         (''can_approve'', True), (''can_create_cumulative'', True)]\<rparr>,
      \<lparr>r_id = 4, r_name = ''admin'',
       r_name_ar = [CHR 0xD9, CHR 0x85, CHR 0xD8, CHR 0xB3, CHR 0xD8, CHR 0xA4, CHR 0xD9, CHR 0x88,
         CHR 0xD9, CHR 0x84, CHR 0x20, CHR 0xD8, CHR 0xA7, CHR 0xD9, CHR 0x84, CHR 0xD9, CHR 0x86,
         CHR 0xD8, CHR 0xB8, CHR 0xD8, CHR 0xA7, CHR 0xD9, CHR 0x85],
       r_description_json = [], r_level = 99,
       r_permissions = [(''can_create_report'', True), (''can_view_all'', True),
         (''can_approve'', True), (''can_create_cumulative'', True),
         (''can_manage_users'', True), (''can_manage_departments'', True)]\<rparr>]"

definition assignment :: "int \<Rightarrow> int \<Rightarrow> int \<Rightarrow> int option \<Rightarrow> user_role_row" where
  "assignment n uid rid dept_id =
     \<lparr>ur_id = n, ur_user_id = uid, ur_role_id = rid, ur_department_id = dept_id,
      ur_is_active = Some 1, ur_assigned_by = None, ur_assigned_at = 0, ur_is_primary = Some 1\<rparr>"

definition org :: database where
  "org =
     \<lparr>users = [\<lparr>u_user_id = 1, u_is_active = Some 1\<rparr>, \<lparr>u_user_id = 2, u_is_active = Some 1\<rparr>,
               \<lparr>u_user_id = 3, u_is_active = Some 1\<rparr>, \<lparr>u_user_id = 4, u_is_active = Some 1\<rparr>],
      departments = [\<lparr>d_id = 1, d_parent_department_id = None, d_is_active = Some 1\<rparr>,
                     \<lparr>d_id = 2, d_parent_department_id = Some 1, d_is_active = Some 1\<rparr>],
      roles = default_roles,
      user_roles = [assignment 1 1 4 None, assignment 2 2 2 (Some 2),
                    assignment 3 3 3 (Some 1), assignment 4 4 1 (Some 2)],
      reports = [], report_approvals = [], report_aggregations = []\<rparr>"

text \<open>The report R of E in department B, with a given status.\<close>

definition report_R :: "string \<Rightarrow> report_row" where
  "report_R status =
     \<lparr>rp_id = 1, rp_content = Text ''figures of the week'', rp_report_type = ''weekly'',
      rp_status = status, rp_visibility = Some ''department'', rp_submitted_by = 4,
      rp_department_id = Some 2, rp_is_cumulative = Some 0, rp_source_report_ids = None,
      rp_submitted_at = Some 100\<rparr>"

definition org_reported :: "string \<Rightarrow> database" where
  "org_reported status = org\<lparr>reports := [report_R status]\<rparr>"

text \<open>Malformed data: department 1 is its own parent.\<close>

definition org_loop :: database where
  "org_loop = org\<lparr>departments := [\<lparr>d_id = 1, d_parent_department_id = Some 1, d_is_active = Some 1\<rparr>]\<rparr>"

text \<open>A manager (user 5) whose assignment has no department, as the web panel's promotion
  of a user without roles writes it.\<close>

definition org_no_department :: database where
  "org_no_department =
     org\<lparr>users := users org @ [\<lparr>u_user_id = 5, u_is_active = Some 1\<rparr>],
         user_roles := user_roles org @ [assignment 5 5 2 None]\<rparr>"

text \<open>A manager (user 5) assigned to department 7, which has no row.\<close>

definition org_dangling :: database where
  "org_dangling =
     org\<lparr>users := users org @ [\<lparr>u_user_id = 5, u_is_active = Some 1\<rparr>],
         user_roles := user_roles org @ [assignment 5 5 2 (Some 7)]\<rparr>"

text \<open>The report R moved to department 7, which has no row.\<close>

definition org_lost_report :: database where
  "org_lost_report = org_dangling\<lparr>reports := [(report_R ''submitted'')\<lparr>rp_department_id := Some 7\<rparr>]\<rparr>"

text \<open>Department B deactivated (the web panel's removal), with the report R in it.\<close>

definition org_B_inactive :: database where
  "org_B_inactive =
     (org_reported ''submitted'')
       \<lparr>departments := [\<lparr>d_id = 1, d_parent_department_id = None, d_is_active = Some 1\<rparr>,
                        \<lparr>d_id = 2, d_parent_department_id = Some 1, d_is_active = Some 0\<rparr>]\<rparr>"

text \<open>The service's answer to a prompt that its safety filter blocks.\<close>

definition blocked :: generation where
  "blocked = Response [\<lparr>finish_reason = Some 2, first_part_text = None\<rparr>] None"

section \<open>Deactivated users\<close>

lemma find_deactivated:
  "find (\<lambda>u. u_user_id u = uid)
     (map (\<lambda>u. if u_user_id u = uid then u\<lparr>u_is_active := Some 0\<rparr> else u) us)
   = map_option (\<lambda>u. u\<lparr>u_is_active := Some 0\<rparr>) (find (\<lambda>u. u_user_id u = uid) us)"
  by (induction us) simp_all

lemma not_active_deactivate_user: "not_active (fst (deactivate_user db uid)) uid"
  by (cases "find (\<lambda>u. u_user_id u = uid) (users db)")
     (simp_all add: not_active_def get_user_def deactivate_user_def find_deactivated truthy_def)

text \<open>
  C10.  After \<^verbatim>\<open>deactivate_user(u)\<close> every check of AccessControl denies for \<open>u\<close>:
  \<^verbatim>\<open>can_create_report\<close>, \<^verbatim>\<open>can_view_report\<close>, \<^verbatim>\<open>can_approve_report\<close>,
  \<^verbatim>\<open>can_create_cumulative_report\<close>, \<^verbatim>\<open>can_manage_users\<close>,
  \<^verbatim>\<open>can_manage_departments\<close>, \<^verbatim>\<open>is_admin\<close> and \<^verbatim>\<open>is_manager\<close> return false and
  \<^verbatim>\<open>get_accessible_departments\<close> returns the empty list, for every report, while the
  role assignments (and the roles) are the ones from before the call.
\<close>

theorem deactivated_user_denied:
  fixes db :: database and uid :: int
  defines "db' \<equiv> fst (deactivate_user db uid)"
  shows "can_create_report db' uid = False
       \<and> can_view_report db' uid report_id = Some False
       \<and> can_approve_report db' uid report_id = Some False
       \<and> can_create_cumulative_report db' uid = False
       \<and> can_manage_users db' uid = False
       \<and> can_manage_departments db' uid = False
       \<and> is_admin db' uid = False
       \<and> is_manager db' uid = False
       \<and> get_accessible_departments db' uid = Some []
       \<and> user_roles db' = user_roles db
       \<and> roles db' = roles db
       \<and> get_user_roles db' uid = get_user_roles db uid"
proof -
  have na: "not_active db' uid"
    unfolding db'_def by (rule not_active_deactivate_user)
  have same: "user_roles db' = user_roles db" "roles db' = roles db"
    unfolding db'_def by (simp_all add: deactivate_user_def)
  have "get_user_roles db' uid = get_user_roles db uid"
    by (simp add: get_user_roles_def same)
  with na same show ?thesis
    by (simp add: can_create_report_def can_view_report_def can_approve_report_def
        can_create_cumulative_report_def can_manage_users_def can_manage_departments_def
        is_admin_def is_manager_def get_accessible_departments_def)
qed

section \<open>Evaluation\<close>

lemmas org_defs = org_def default_roles_def assignment_def org_reported_def report_R_def
  org_loop_def org_no_department_def org_dangling_def org_B_inactive_def blocked_def

lemmas db_defs = get_user_roles_def get_user_primary_role_def get_user_department_def
  has_permission_def perm_get_def truthy_def not_active_def get_user_def get_report_def
  get_all_departments_def

section \<open>The department hierarchy\<close>

lemma dept_tree_Nil: "dept_tree ds [] acc = Some acc"
  by (subst dept_tree.simps) simp

lemma dept_tree_Cons:
  "dept_tree ds (x # rest) acc = dept_tree ds (rest @ children ds x) (acc @ [x])"
  by (subst dept_tree.simps) simp

lemma set_children: "set (children ds x) = parent_links ds `` {x}"
  by (auto simp: children_def parent_links_def)

lemma finite_parent_links: "finite (parent_links ds)"
proof -
  have "parent_links ds \<subseteq> (\<lambda>d. (the (d_parent_department_id d), d_id d)) ` set ds"
    by (force simp: parent_links_def)
  then show ?thesis by (rule finite_surj[rotated]) simp
qed

lemma dept_tree_set:
  assumes "dept_tree ds q acc = Some ys"
  shows "set ys = set acc \<union> (parent_links ds)\<^sup>* `` set q"
proof (rule dept_tree.raw_induct
    [where P = "\<lambda>ds q acc ys. set ys = set acc \<union> (parent_links ds)\<^sup>* `` set q", OF _ assms])
  fix f ds q acc ys
  assume IH: "\<And>ds q acc ys. f ds q acc = Some ys
      \<Longrightarrow> set ys = set acc \<union> (parent_links ds)\<^sup>* `` set q"
    and eq: "(case q of [] \<Rightarrow> Some acc
             | x # rest \<Rightarrow> f ds (rest @ children ds x) (acc @ [x])) = Some ys"
  show "set ys = set acc \<union> (parent_links ds)\<^sup>* `` set q"
  proof (cases q)
    case Nil
    with eq show ?thesis by simp
  next
    case (Cons x rest)
    with eq have "f ds (rest @ children ds x) (acc @ [x]) = Some ys" by simp
    from IH[OF this]
    have "set ys = set (acc @ [x]) \<union> (parent_links ds)\<^sup>* `` set (rest @ children ds x)" .
    moreover have "(parent_links ds)\<^sup>* `` {x}
        = {x} \<union> (parent_links ds)\<^sup>* `` (parent_links ds `` {x})"
      by (auto elim: converse_rtranclE intro: converse_rtrancl_into_rtrancl)
    ultimately show ?thesis
      by (simp add: Cons set_children Image_Un) blast
  qed
qed

lemma hierarchy_start:
  "set (map d_id (filter (\<lambda>d. Some (d_id d) = Some dept) ds))
   = (if dept \<in> d_id ` set ds then {dept} else {})"
  by auto

lemma hierarchy_set:
  assumes "get_department_hierarchy db (Some dept) = Some ys"
  shows "set ys = subtree (departments db) dept"
  using dept_tree_set[OF assms[unfolded get_department_hierarchy_def]]
  unfolding hierarchy_start subtree_def by simp

lemma hierarchy_None: "get_department_hierarchy db None = Some []"
  by (simp add: get_department_hierarchy_def dept_tree_Nil)

lemma subtree_ids: "subtree ds dept \<subseteq> d_id ` set ds"
proof
  fix x assume "x \<in> subtree ds dept"
  then have d: "dept \<in> d_id ` set ds" and r: "(dept, x) \<in> (parent_links ds)\<^sup>*"
    by (auto simp: subtree_def split: if_splits)
  from r show "x \<in> d_id ` set ds"
  proof (cases rule: rtranclE)
    case base
    with d show ?thesis by simp
  next
    case (step y)
    then show ?thesis by (auto simp: parent_links_def)
  qed
qed

lemma dept_tree_terminates_on:
  assumes wfr: "wf (r\<inverse>)"
    and closed: "\<And>x c. x \<in> S \<Longrightarrow> (x, c) \<in> parent_links ds \<Longrightarrow> c \<in> S \<and> (x, c) \<in> r"
    and start: "set q \<subseteq> S"
  shows "\<exists>ys. dept_tree ds q acc = Some ys"
proof -
  have wfm: "wf (mult1 (r\<inverse>))" using wfr by (rule wf_mult1)
  have "\<forall>q acc. m = mset q \<longrightarrow> set q \<subseteq> S \<longrightarrow> (\<exists>ys. dept_tree ds q acc = Some ys)" for m
  proof (induction m rule: wf_induct_rule[OF wfm])
    case (1 m)
    show ?case
    proof (intro allI impI)
      fix q acc assume m: "m = mset q" and sub: "set q \<subseteq> S"
      show "\<exists>ys. dept_tree ds q acc = Some ys"
      proof (cases q)
        case Nil
        then show ?thesis by (simp add: dept_tree_Nil)
      next
        case (Cons x rest)
        with sub have x: "x \<in> S" and rest: "set rest \<subseteq> S" by simp_all
        have ch: "c \<in> S \<and> (x, c) \<in> r" if "c \<in> set (children ds x)" for c
          using that closed[OF x, of c] by (simp add: set_children)
        have "(mset (rest @ children ds x), m) \<in> mult1 (r\<inverse>)"
        proof (rule mult1I)
          show "m = add_mset x (mset rest)" by (simp add: m Cons)
          show "mset (rest @ children ds x) = mset rest + mset (children ds x)" by simp
          show "(b, x) \<in> r\<inverse>" if "b \<in># mset (children ds x)" for b
            using ch[of b] that by simp
        qed
        moreover have "set (rest @ children ds x) \<subseteq> S"
          using rest ch by auto
        ultimately have "\<exists>ys. dept_tree ds (rest @ children ds x) (acc @ [x]) = Some ys"
          using 1 by blast
        then show ?thesis by (simp add: Cons dept_tree_Cons)
      qed
    qed
  qed
  with start show ?thesis by blast
qed

lemma dept_tree_returns:
  assumes "\<forall>x \<in> set q. \<not> (\<exists>y. (x, y) \<in> (parent_links ds)\<^sup>* \<and> (y, y) \<in> (parent_links ds)\<^sup>+)"
  shows "\<exists>ys. dept_tree ds q acc = Some ys"
proof -
  let ?R = "parent_links ds"
  let ?S = "{x. \<not> (\<exists>y. (x, y) \<in> ?R\<^sup>* \<and> (y, y) \<in> ?R\<^sup>+)}"
  let ?r = "{(x, c). (x, c) \<in> ?R \<and> x \<in> ?S}"
  have sub: "?r \<subseteq> ?R" by auto
  have fin: "finite ?r" using finite_parent_links[of ds] sub by (rule rev_finite_subset)
  have acyc: "acyclic ?r"
    unfolding acyclic_def
  proof (intro allI notI)
    fix x assume xx: "(x, x) \<in> ?r\<^sup>+"
    from trancl_mono[OF xx sub] have c: "(x, x) \<in> ?R\<^sup>+" .
    from tranclD[OF xx] obtain z where "(x, z) \<in> ?r" by blast
    then have "x \<in> ?S" by simp
    with c show False by blast
  qed
  have wfr: "wf (?r\<inverse>)" using fin acyc by (rule finite_acyclic_wf_converse)
  have closed: "c \<in> ?S \<and> (x, c) \<in> ?r" if "x \<in> ?S" and "(x, c) \<in> ?R" for x c
  proof -
    have "c \<in> ?S"
    proof (rule ccontr)
      assume "c \<notin> ?S"
      then obtain y where "(c, y) \<in> ?R\<^sup>*" and "(y, y) \<in> ?R\<^sup>+" by blast
      with that(2) have "(x, y) \<in> ?R\<^sup>*" by (meson converse_rtrancl_into_rtrancl)
      with \<open>(y, y) \<in> ?R\<^sup>+\<close> that(1) show False by blast
    qed
    with that show ?thesis by simp
  qed
  have "set q \<subseteq> ?S" using assms by blast
  with wfr closed show ?thesis by (rule dept_tree_terminates_on)
qed

lemma dept_tree_diverges:
  assumes "dept_tree ds q acc = Some ys"
  shows "\<forall>x \<in> set q. \<not> (\<exists>y. (x, y) \<in> (parent_links ds)\<^sup>* \<and> (y, y) \<in> (parent_links ds)\<^sup>+)"
proof (rule dept_tree.raw_induct
    [where P = "\<lambda>ds q acc ys. \<forall>x \<in> set q.
        \<not> (\<exists>y. (x, y) \<in> (parent_links ds)\<^sup>* \<and> (y, y) \<in> (parent_links ds)\<^sup>+)", OF _ assms])
  fix f ds q acc ys
  assume IH: "\<And>ds q acc ys. f ds q acc = Some ys \<Longrightarrow> \<forall>x \<in> set q.
        \<not> (\<exists>y. (x, y) \<in> (parent_links ds)\<^sup>* \<and> (y, y) \<in> (parent_links ds)\<^sup>+)"
    and eq: "(case q of [] \<Rightarrow> Some acc
             | x # rest \<Rightarrow> f ds (rest @ children ds x) (acc @ [x])) = Some ys"
  let ?R = "parent_links ds"
  show "\<forall>x \<in> set q. \<not> (\<exists>y. (x, y) \<in> ?R\<^sup>* \<and> (y, y) \<in> ?R\<^sup>+)"
  proof (cases q)
    case Nil
    then show ?thesis by simp
  next
    case (Cons x rest)
    with eq have "f ds (rest @ children ds x) (acc @ [x]) = Some ys" by simp
    from IH[OF this]
    have ih: "\<forall>z \<in> set rest \<union> ?R `` {x}. \<not> (\<exists>y. (z, y) \<in> ?R\<^sup>* \<and> (y, y) \<in> ?R\<^sup>+)"
      by (simp add: set_children)
    have "\<not> (\<exists>y. (x, y) \<in> ?R\<^sup>* \<and> (y, y) \<in> ?R\<^sup>+)"
    proof
      assume "\<exists>y. (x, y) \<in> ?R\<^sup>* \<and> (y, y) \<in> ?R\<^sup>+"
      then obtain y where xy: "(x, y) \<in> ?R\<^sup>*" and yy: "(y, y) \<in> ?R\<^sup>+" by blast
      from xy yy have "(x, y) \<in> ?R\<^sup>+" by (rule rtrancl_trancl_trancl)
      from tranclD[OF this] obtain c where "(x, c) \<in> ?R" and "(c, y) \<in> ?R\<^sup>*" by blast
      with ih yy show False by blast
    qed
    with ih show ?thesis unfolding Cons by auto
  qed
qed

lemma hierarchy_queue:
  "set (map d_id (filter (\<lambda>d. Some (d_id d) = dept_id) ds))
   = {d. dept_id = Some d \<and> d \<in> d_id ` set ds}"
  by auto

lemma hierarchy_diverges:
  assumes "cycle_below (departments db) dept"
  shows "get_department_hierarchy db (Some dept) = None"
proof (cases "get_department_hierarchy db (Some dept)")
  case None
  then show ?thesis .
next
  case (Some ys)
  from dept_tree_diverges[OF Some[unfolded get_department_hierarchy_def]] assms
  show ?thesis unfolding hierarchy_queue cycle_below_def by blast
qed

lemma hierarchy_returns:
  assumes "\<not> cycle_below (departments db) dept"
  shows "\<exists>ys. get_department_hierarchy db (Some dept) = Some ys"
  unfolding get_department_hierarchy_def
proof (rule dept_tree_returns)
  show "\<forall>x \<in> set (map d_id (filter (\<lambda>d. Some (d_id d) = Some dept) (departments db))).
      \<not> (\<exists>y. (x, y) \<in> (parent_links (departments db))\<^sup>*
             \<and> (y, y) \<in> (parent_links (departments db))\<^sup>+)"
    using assms unfolding hierarchy_queue cycle_below_def by blast
qed

lemma acyclic_no_cycle_below: "acyclic (parent_links ds) \<Longrightarrow> \<not> cycle_below ds dept"
  by (auto simp: cycle_below_def acyclic_def)

lemma cycle_below_org_loop: "cycle_below (departments org_loop) 1"
proof -
  have "(1, 1) \<in> parent_links (departments org_loop)"
    by (simp add: parent_links_def org_loop_def)
  then have "(1, 1) \<in> (parent_links (departments org_loop))\<^sup>+" by (rule r_into_trancl)
  then show ?thesis unfolding cycle_below_def by (auto simp: org_loop_def)
qed

lemma parent_links_org: "parent_links (departments org) = {(1, 2)}"
  by (auto simp: parent_links_def org_def)

lemma acyclic_org: "acyclic (parent_links (departments org))"
proof -
  have "acyclic ({} :: (int \<times> int) set)" by (simp add: acyclic_def)
  then show ?thesis unfolding parent_links_org by (simp add: acyclic_insert)
qed

lemma hierarchy_org_A: "get_department_hierarchy org (Some 1) = Some [1, 2]"
  by (simp add: get_department_hierarchy_def org_def dept_tree_Cons dept_tree_Nil children_def)

section \<open>Accessible departments\<close>

text \<open>
  C2, amended.  \<^verbatim>\<open>get_department_hierarchy\<close> finishes if and only if no parent-link
  cycle can be reached from the start department; nothing in the query bounds the
  traversal by the number of departments.
\<close>

theorem hierarchy_terminates_iff:
  "(\<exists>ys. get_department_hierarchy db dept_id = Some ys)
   \<longleftrightarrow> \<not> (\<exists>dept. dept_id = Some dept \<and> cycle_below (departments db) dept)"
proof (cases dept_id)
  case None
  then show ?thesis by (simp add: hierarchy_None)
next
  case (Some dept)
  show ?thesis
  proof (cases "cycle_below (departments db) dept")
    case True
    from hierarchy_diverges[OF this] True Some show ?thesis by simp
  next
    case False
    from hierarchy_returns[OF this] False Some show ?thesis by simp
  qed
qed

text \<open>
  In the table of departments A and B no cycle can be reached from A, and the query
  from A finishes.
\<close>

theorem hierarchy_terminates_iff_witness:
  "get_department_hierarchy org (Some 1) = Some [1, 2]
   \<and> \<not> cycle_below (departments org) 1"
  using hierarchy_terminates_iff[of org "Some 1"] hierarchy_org_A by simp

text \<open>
  C2 as stated fails: on a table where department 1 is its own parent, the query from
  department 1 never finishes.
\<close>

theorem hierarchy_loops_on_cycle:
  "get_department_hierarchy org_loop (Some 1) = None"
  using cycle_below_org_loop by (rule hierarchy_diverges)

text \<open>
  C1, amended.  For every active user \<^verbatim>\<open>get_accessible_departments\<close> gives: nothing
  if the user has no active role; the ids of all active departments if the user's
  highest-level active role is admin; otherwise nothing if that role's assignment has no
  department (null or 0); otherwise, if the role grants sub-tree visibility, the
  sub-tree of the assignment's department (the department, when it has a row, and all
  its descendants), unless a parent-link cycle can be reached from that department, in
  which case the call never returns; otherwise, if the role grants same-department
  visibility, that department alone; otherwise nothing.
\<close>

theorem accessible_departments_cases:
  assumes active: "\<not> not_active db uid"
  shows "case get_user_primary_role db uid of
       None \<Rightarrow> get_accessible_departments db uid = Some []
     | Some r \<Rightarrow>
         if role_name r = ''admin''
           then \<exists>ys. get_accessible_departments db uid = Some ys
                  \<and> set ys = d_id ` {d \<in> set (departments db). d_is_active d = Some 1}
         else (case department_id r of
           None \<Rightarrow> get_accessible_departments db uid = Some []
         | Some dept \<Rightarrow>
             if dept = 0 then get_accessible_departments db uid = Some []
             else if perm_get (permissions r) ''can_view_subdepartments''
               then (if cycle_below (departments db) dept
                     then get_accessible_departments db uid = None
                     else \<exists>ys. get_accessible_departments db uid = Some ys
                            \<and> set ys = subtree (departments db) dept)
             else if perm_get (permissions r) ''can_view_department''
               then get_accessible_departments db uid = Some [dept]
             else get_accessible_departments db uid = Some [])"
proof (cases "get_user_primary_role db uid")
  case None
  with active show ?thesis by (simp add: get_accessible_departments_def)
next
  case (Some r)
  note role = this
  show ?thesis
  proof (cases "role_name r = ''admin''")
    case True
    with active role show ?thesis
      by (auto simp: get_accessible_departments_def get_all_departments_def)
  next
    case False
    note not_admin = this
    show ?thesis
    proof (cases "department_id r")
      case None
      with active role not_admin show ?thesis by (simp add: get_accessible_departments_def)
    next
      case (Some dept)
      have eq: "get_accessible_departments db uid = get_department_hierarchy db (Some dept)"
        if "dept \<noteq> 0" and "perm_get (permissions r) ''can_view_subdepartments''"
        using that active role not_admin Some by (simp add: get_accessible_departments_def)
      show ?thesis
      proof (cases "dept \<noteq> 0 \<and> perm_get (permissions r) ''can_view_subdepartments''")
        case True
        show ?thesis
        proof (cases "cycle_below (departments db) dept")
          case c: True
          from hierarchy_diverges[OF c] eq True c role not_admin Some show ?thesis by simp
        next
          case c: False
          from hierarchy_returns[OF c] obtain ys
            where ys: "get_department_hierarchy db (Some dept) = Some ys" by blast
          from hierarchy_set[OF ys] ys eq True c role not_admin Some show ?thesis by simp
        qed
      next
        case False
        with active role not_admin Some show ?thesis
          by (auto simp: get_accessible_departments_def)
      qed
    qed
  qed
qed

text \<open>
  The example of the specification: the manager M of B gets exactly B, the upper manager
  U of the root A, whose child is B, gets exactly A and B.
\<close>

theorem accessible_departments_cases_witness:
  "\<not> not_active org 2 \<and> \<not> not_active org 3
   \<and> get_accessible_departments org 2 = Some [2]
   \<and> get_accessible_departments org 3 = Some [1, 2]
   \<and> \<not> cycle_below (departments org) 1
   \<and> subtree (departments org) 1 = {1, 2}"
proof -
  have a2: "\<not> not_active org 2" and a3: "\<not> not_active org 3"
    by (simp_all add: org_defs db_defs)
  have m: "get_accessible_departments org 2 = Some [2]"
    using accessible_departments_cases[OF a2] by (simp add: org_defs db_defs)
  have u: "get_accessible_departments org 3 = Some [1, 2]"
    using hierarchy_org_A by (simp add: get_accessible_departments_def org_defs db_defs)
  have nc: "\<not> cycle_below (departments org) 1"
    using acyclic_org by (rule acyclic_no_cycle_below)
  obtain r where r: "get_user_primary_role org 3 = Some r" "role_name r = ''upper_manager''"
      "department_id r = Some 1" "perm_get (permissions r) ''can_view_subdepartments''"
    by (simp add: org_defs db_defs)
  from accessible_departments_cases[OF a3] r nc u
  have "subtree (departments org) 1 = {1, 2}" by simp
  with a2 a3 m u nc show ?thesis by simp
qed

text \<open>
  C1 as stated fails: for the upper manager of a department that is its own parent the
  call never returns, and a manager whose assignment has no department gets the empty
  list, not a singleton.
\<close>

theorem accessible_departments_counterexample:
  "get_accessible_departments org_loop 3 = None
   \<and> get_accessible_departments org_no_department 5 = Some []"
proof -
  have "get_accessible_departments org_loop 3 = get_department_hierarchy org_loop (Some 1)"
    by (simp add: get_accessible_departments_def org_defs db_defs)
  moreover have "get_accessible_departments org_no_department 5 = Some []"
    by (simp add: get_accessible_departments_def org_defs db_defs)
  ultimately show ?thesis using hierarchy_diverges[OF cycle_below_org_loop] by simp
qed

section \<open>Role assignment check\<close>

lemma can_assign_role_raises:
  assumes "\<not> not_active db assigner_id" and "can_manage_users db assigner_id"
    and "find (\<lambda>r. r_name r = rname) (roles db) = Some row"
  shows "can_assign_role db assigner_id target rname dept_id = Inl (KeyError ''level'')"
  using assms by (simp add: can_assign_role_def get_role_by_name_def dict_int_def)

lemma can_assign_role_never_allows:
  "can_assign_role db assigner_id target rname dept_id \<noteq> Inr (True, msg)"
  by (auto simp: can_assign_role_def get_role_by_name_def dict_int_def split: option.splits)

text \<open>
  C3.  The claim: \<^verbatim>\<open>can_assign_role\<close> returns a rejection whenever the target role's
  rank is greater than or equal to the assigner's.  The code: the dictionary of
  \<^verbatim>\<open>get_role_by_name\<close> has no key \<^verbatim>\<open>level\<close>, so for an active assigner who may
  manage users and a role that exists, the comparison of the ranks raises
  \<^verbatim>\<open>KeyError\<close>.  Here the administrator (rank 99) assigns the role admin (rank 99).
\<close>

theorem can_assign_role_admin_raises:
  "map r_level (filter (\<lambda>r. r_name r = ''admin'') (roles org)) = [99]
   \<and> map_option level (get_user_primary_role org 1) = Some 99
   \<and> can_assign_role org 1 4 ''admin'' None = Inl (KeyError ''level'')"
  by (simp add: org_defs db_defs can_assign_role_def can_manage_users_def
      get_role_by_name_def dict_int_def)

section \<open>Viewing and approving reports\<close>

lemma get_report_Some:
  assumes "get_report db rid = Some r"
  shows "r \<in> set (reports db) \<and> rp_id r = rid
       \<and> list_ex (\<lambda>d. Some (d_id d) = rp_department_id r) (departments db)"
  using assms unfolding get_report_def by (auto simp: find_Some_iff)

lemma get_report_None:
  assumes "\<forall>r \<in> set (reports db). rp_id r = rid \<longrightarrow>
      \<not> list_ex (\<lambda>d. Some (d_id d) = rp_department_id r) (departments db)"
  shows "get_report db rid = None"
  using assms unfolding get_report_def by (auto simp: find_None_iff)

lemma active_user_row: "\<not> not_active db uid \<Longrightarrow> list_ex (\<lambda>u. u_user_id u = uid) (users db)"
  by (auto simp: not_active_def get_user_def list_ex_iff find_Some_iff split: option.splits)

lemma hierarchy_ids:
  assumes "get_department_hierarchy db dept_id = Some h"
  shows "set h \<subseteq> d_id ` set (departments db)"
proof (cases dept_id)
  case None
  with assms show ?thesis by (simp add: hierarchy_None)
next
  case (Some d)
  with assms hierarchy_set[of db d h] subtree_ids[of "departments db" d] show ?thesis by simp
qed

lemma can_access_accessible:
  assumes "get_accessible_departments db uid = Some ds" and "dept_id \<in> Some ` set ds"
  shows "can_access_department db uid dept_id = Some True"
  using assms
  by (auto simp: get_accessible_departments_def can_access_department_def truthy_def
      split: option.splits if_splits)

text \<open>
  C4, amended.  \<^verbatim>\<open>can_approve_report\<close> returns true if and only if the requester is
  active, one of their active roles grants \<^verbatim>\<open>can_approve\<close>, the report is found and
  was submitted by someone else, and \<^verbatim>\<open>can_access_department\<close> grants the report's
  department: the requester's highest-level role is admin, or its assignment's
  department is the report's, or the role grants sub-tree visibility and the report's
  department is in the hierarchy of the assignment's department.  Membership of the
  report's department in the requester's accessible departments is sufficient for the
  last condition (not necessary), and nobody can approve a report they submitted.
\<close>

theorem can_approve_report_iff:
  "(can_approve_report db uid rid = Some True \<longleftrightarrow>
      \<not> not_active db uid \<and> has_permission db uid ''can_approve''
      \<and> (\<exists>report role. get_report db rid = Some report \<and> rp_submitted_by report \<noteq> uid
            \<and> get_user_primary_role db uid = Some role
            \<and> (role_name role = ''admin''
               \<or> truthy (department_id role)
                 \<and> (department_id role = rp_department_id report
                    \<or> perm_get (permissions role) ''can_view_subdepartments''
                      \<and> (\<exists>h. get_department_hierarchy db (department_id role) = Some h
                               \<and> rp_department_id report \<in> Some ` set h)))))
   \<and> (\<forall>report ds. \<not> not_active db uid \<and> has_permission db uid ''can_approve''
          \<and> get_report db rid = Some report \<and> rp_submitted_by report \<noteq> uid
          \<and> get_accessible_departments db uid = Some ds
          \<and> rp_department_id report \<in> Some ` set ds
        \<longrightarrow> can_approve_report db uid rid = Some True)
   \<and> (\<forall>report. get_report db rid = Some report \<and> rp_submitted_by report = uid
        \<longrightarrow> can_approve_report db uid rid = Some False)"
proof (intro conjI allI impI)
  show "can_approve_report db uid rid = Some True \<longleftrightarrow>
      \<not> not_active db uid \<and> has_permission db uid ''can_approve''
      \<and> (\<exists>report role. get_report db rid = Some report \<and> rp_submitted_by report \<noteq> uid
            \<and> get_user_primary_role db uid = Some role
            \<and> (role_name role = ''admin''
               \<or> truthy (department_id role)
                 \<and> (department_id role = rp_department_id report
                    \<or> perm_get (permissions role) ''can_view_subdepartments''
                      \<and> (\<exists>h. get_department_hierarchy db (department_id role) = Some h
                               \<and> rp_department_id report \<in> Some ` set h))))"
    by (auto simp: can_approve_report_def can_access_department_def
        split: option.splits if_splits)
next
  fix report ds
  assume "\<not> not_active db uid \<and> has_permission db uid ''can_approve''
          \<and> get_report db rid = Some report \<and> rp_submitted_by report \<noteq> uid
          \<and> get_accessible_departments db uid = Some ds
          \<and> rp_department_id report \<in> Some ` set ds"
  then show "can_approve_report db uid rid = Some True"
    using can_access_accessible[of db uid ds "rp_department_id report"]
    by (simp add: can_approve_report_def)
next
  fix report
  assume "get_report db rid = Some report \<and> rp_submitted_by report = uid"
  then show "can_approve_report db uid rid = Some False"
    by (simp add: can_approve_report_def)
qed

text \<open>
  The example of the specification: E submits R in department B; the manager of B can
  approve R, and E cannot approve their own report.
\<close>

theorem can_approve_report_iff_witness:
  "can_approve_report (org_reported ''submitted'') 2 1 = Some True
   \<and> get_accessible_departments (org_reported ''submitted'') 2 = Some [2]
   \<and> map_option rp_department_id (get_report (org_reported ''submitted'') 1) = Some (Some 2)
   \<and> can_approve_report (org_reported ''submitted'') 4 1 = Some False"
proof -
  let ?db = "org_reported ''submitted''"
  have r: "get_report ?db 1 = Some (report_R ''submitted'')"
    by (simp add: org_defs db_defs)
  have a: "get_accessible_departments ?db 2 = Some [2]"
    by (simp add: get_accessible_departments_def org_defs db_defs)
  have "can_approve_report ?db 2 1 = Some True"
    using can_approve_report_iff[of ?db 2 1] r a
    by (simp add: org_defs db_defs)
  moreover have "can_approve_report ?db 4 1 = Some False"
    using can_approve_report_iff[of ?db 4 1] r by (simp add: report_R_def)
  ultimately show ?thesis using r a by (simp add: report_R_def)
qed

text \<open>
  C4 as stated fails: the administrator can approve the report R of the deactivated
  department B, which is not among the administrator's accessible departments.
\<close>

theorem can_approve_report_counterexample:
  "can_approve_report org_B_inactive 1 1 = Some True
   \<and> map_option rp_department_id (get_report org_B_inactive 1) = Some (Some 2)
   \<and> get_accessible_departments org_B_inactive 1 = Some [1]"
  by (simp add: org_defs db_defs can_approve_report_def can_access_department_def
      get_accessible_departments_def)

text \<open>
  C5, amended.  Every active user can view every report that they submitted and whose
  department has a row, whatever that department and the report's visibility.
\<close>

theorem owner_views_report:
  assumes "\<not> not_active db uid"
    and "r \<in> set (reports db)" and "rp_id r = rid"
    and "list_ex (\<lambda>d. Some (d_id d) = rp_department_id r) (departments db)"
    and "\<forall>r' \<in> set (reports db). rp_id r' = rid \<longrightarrow> rp_submitted_by r' = uid"
  shows "can_view_report db uid rid = Some True"
proof -
  have u: "list_ex (\<lambda>u. u_user_id u = uid) (users db)"
    using assms(1) by (rule active_user_row)
  have "get_report db rid \<noteq> None"
    unfolding get_report_def using assms(2-5) u by (auto simp: find_None_iff)
  then obtain r' where r': "get_report db rid = Some r'" by blast
  with get_report_Some[OF r'] assms(5) have "rp_submitted_by r' = uid" by blast
  with r' assms(1) show ?thesis by (simp add: can_view_report_def)
qed

text \<open>The employee E views their draft R.\<close>

theorem owner_views_report_witness:
  "\<not> not_active (org_reported ''draft'') 4
   \<and> reports (org_reported ''draft'') = [report_R ''draft'']
   \<and> can_view_report (org_reported ''draft'') 4 1 = Some True"
proof -
  let ?db = "org_reported ''draft''"
  have a: "\<not> not_active ?db 4" by (simp add: org_defs db_defs)
  have r: "reports ?db = [report_R ''draft'']" by (simp add: org_defs)
  have "can_view_report ?db 4 1 = Some True"
    by (rule owner_views_report[of ?db 4 "report_R ''draft''" 1])
       (simp_all add: org_defs db_defs)
  with a r show ?thesis by simp
qed

text \<open>C5 as stated fails: once deactivated, E cannot view their own report R.\<close>

theorem deactivated_owner_counterexample:
  "map rp_submitted_by (reports (fst (deactivate_user (org_reported ''submitted'') 4))) = [4]
   \<and> can_view_report (fst (deactivate_user (org_reported ''submitted'') 4)) 4 1 = Some False"
  by (simp add: org_defs db_defs can_view_report_def deactivate_user_def)

section \<open>Reports without department\<close>

lemma can_access_unresolved:
  assumes non_admin: "map_option role_name (get_user_primary_role db uid) \<noteq> Some ''admin''"
    and unresolved: "\<not> list_ex (\<lambda>d. Some (d_id d) = dept_id) (departments db)"
  shows "can_access_department db uid dept_id = Some True
         \<longleftrightarrow> truthy dept_id \<and> get_user_department db uid = dept_id"
proof (cases "get_user_primary_role db uid")
  case None
  then show ?thesis
    by (auto simp: can_access_department_def get_user_department_def
        get_user_primary_role_def truthy_def)
next
  case (Some role)
  have dept: "get_user_department db uid = department_id role"
    using Some by (simp add: get_user_department_def get_user_primary_role_def)
  have no: "dept_id \<notin> Some ` set h" if "get_department_hierarchy db d = Some h" for d h
    using hierarchy_ids[OF that] unresolved by (auto simp: list_ex_iff)
  from Some non_admin dept no show ?thesis
    by (auto simp: can_access_department_def split: option.splits)
qed

text \<open>
  C8, amended.  For a report whose department reference is null or has no row,
  \<^verbatim>\<open>can_view_report\<close> denies, for every user.  For a user whose highest-level role
  is not admin, \<^verbatim>\<open>can_access_department\<close> grants such a department reference only
  when it is the department of the user's own assignment (and is not null or 0); it
  never grants the null reference.
\<close>

theorem unresolved_department_denied:
  assumes unresolved: "\<not> list_ex (\<lambda>d. Some (d_id d) = dept_id) (departments db)"
    and report: "\<forall>r \<in> set (reports db). rp_id r = rid \<longrightarrow> rp_department_id r = dept_id"
  shows "can_view_report db uid rid = Some False
       \<and> (map_option role_name (get_user_primary_role db uid) \<noteq> Some ''admin'' \<longrightarrow>
            (can_access_department db uid dept_id = Some True
               \<longleftrightarrow> truthy dept_id \<and> get_user_department db uid = dept_id)
            \<and> can_access_department db uid None \<noteq> Some True)"
proof -
  have "get_report db rid = None"
    using unresolved report by (intro get_report_None) auto
  then have v: "can_view_report db uid rid = Some False"
    by (simp add: can_view_report_def)
  have "can_access_department db uid None \<noteq> Some True"
    if "map_option role_name (get_user_primary_role db uid) \<noteq> Some ''admin''"
    using can_access_unresolved[OF that, of None] by (simp add: truthy_def list_ex_iff)
  with v can_access_unresolved[OF _ unresolved, of uid] show ?thesis by blast
qed

text \<open>
  The report R moved to department 7, which has no row: nobody can view it, neither its
  owner E nor the administrator, and E is not granted department 7.
\<close>

theorem unresolved_department_denied_witness:
  "map_option role_name (get_user_primary_role org_lost_report 4) = Some ''employee''
   \<and> map d_id (departments org_lost_report) = [1, 2]
   \<and> map rp_department_id (reports org_lost_report) = [Some 7]
   \<and> can_view_report org_lost_report 4 1 = Some False
   \<and> can_view_report org_lost_report 1 1 = Some False
   \<and> can_access_department org_lost_report 4 (Some 7) \<noteq> Some True
   \<and> can_access_department org_lost_report 4 None \<noteq> Some True"
proof -
  have h: "map_option role_name (get_user_primary_role org_lost_report 4) = Some ''employee''"
    "map d_id (departments org_lost_report) = [1, 2]"
    "map rp_department_id (reports org_lost_report) = [Some 7]"
    by (simp_all add: org_lost_report_def org_defs db_defs)
  have u: "\<not> list_ex (\<lambda>d. Some (d_id d) = Some 7) (departments org_lost_report)"
    and r: "\<forall>r \<in> set (reports org_lost_report). rp_id r = 1 \<longrightarrow> rp_department_id r = Some 7"
    by (simp_all add: org_lost_report_def org_defs)
  have d: "get_user_department org_lost_report 4 = Some 2"
    by (simp add: org_lost_report_def org_defs db_defs)
  from unresolved_department_denied[OF u r, of 4] unresolved_department_denied[OF u r, of 1] h d
  show ?thesis by simp
qed

text \<open>
  C8 as stated fails: a manager assigned to department 7, which has no row, is granted
  access to department 7 by \<^verbatim>\<open>can_access_department\<close>.
\<close>

theorem dangling_department_counterexample:
  "map_option role_name (get_user_primary_role org_dangling 5) = Some ''manager''
   \<and> map d_id (departments org_dangling) = [1, 2]
   \<and> can_access_department org_dangling 5 (Some 7) = Some True"
  by (simp add: org_defs db_defs can_access_department_def)

end
